theory Spec2Isabelle
  imports Complex_Main "HOL-Library.Sublist"
begin

section \<open>JavaScript values\<close>

text \<open>
  The adapter works on parsed JSON. A number is modelled as a rational: the code only
  compares numbers (\<open>Math.min\<close>, \<open>Math.max\<close>, truthiness), it never computes with them,
  and \<open>JSON.parse\<close> yields no \<open>NaN\<close>. An object is a list of key/value pairs read with
  \<open>map_of\<close>. \<open>undefined\<close> is \<open>None\<close> of \<open>json option\<close>.
  A string is a list of code units; the characters of Isabelle cover the code units
  below 256.
\<close>

datatype json =
    JNull
  | JBool bool
  | JNum rat
  | JStr string
  | JArr "json list"
  | JObj "(string \<times> json) list"

datatype jstype = TUndefined | TObject | TBoolean | TNumber | TString

text \<open>The \<open>typeof\<close> operator; \<open>typeof null\<close> and \<open>typeof []\<close> are \<open>"object"\<close>.\<close>

fun typeof :: "json option \<Rightarrow> jstype" where
  "typeof None = TUndefined"
| "typeof (Some JNull) = TObject"
| "typeof (Some (JBool b)) = TBoolean"
| "typeof (Some (JNum v)) = TNumber"
| "typeof (Some (JStr s)) = TString"
| "typeof (Some (JArr xs)) = TObject"
| "typeof (Some (JObj kvs)) = TObject"

text \<open>Truthiness: \<open>undefined\<close>, \<open>null\<close>, \<open>false\<close>, \<open>0\<close> and \<open>""\<close> are falsy.\<close>

fun truthy :: "json option \<Rightarrow> bool" where
  "truthy None = False"
| "truthy (Some JNull) = False"
| "truthy (Some (JBool b)) = b"
| "truthy (Some (JNum v)) = (v \<noteq> 0)"
| "truthy (Some (JStr s)) = (s \<noteq> [])"
| "truthy (Some (JArr xs)) = True"
| "truthy (Some (JObj kvs)) = True"

text \<open>
  Property read \<open>x?.key\<close> for the keys the adapter reads (none of them is a property
  of an array, a string, a number or a boolean): only an object can hold one.
\<close>

fun getProp :: "json option \<Rightarrow> string \<Rightarrow> json option" where
  "getProp (Some (JObj kvs)) key = map_of kvs key"
| "getProp _ key = None"

text \<open>\<open>String.prototype.startsWith\<close> and \<open>String.prototype.includes\<close>.\<close>

fun startsWith :: "string \<Rightarrow> string \<Rightarrow> bool" where
  "startsWith s [] = True"
| "startsWith [] (c # cs) = False"
| "startsWith (d # ds) (c # cs) = (d = c \<and> startsWith ds cs)"

fun includesStr :: "string \<Rightarrow> string \<Rightarrow> bool" where
  "includesStr [] p = startsWith [] p"
| "includesStr (d # ds) p = (startsWith (d # ds) p \<or> includesStr ds p)"

text \<open>
  \<open>String.prototype.trim\<close> removes white space and line terminators at both ends:
  among the code units below 256 these are TAB, LF, VT, FF, CR, SP and NBSP.
\<close>

definition isWhiteSpace :: "char \<Rightarrow> bool" where
  "isWhiteSpace c = (of_char c \<in> {9, 10, 11, 12, 13, 32, 160 :: nat})"

definition trim :: "string \<Rightarrow> string" where
  "trim s = rev (dropWhile isWhiteSpace (rev (dropWhile isWhiteSpace s)))"

definition clamp :: "rat \<Rightarrow> rat \<Rightarrow> rat \<Rightarrow> rat" where
  "clamp v lo hi = max lo (min hi v)"

section \<open>Data model\<close>

text \<open>
  \<open>ChatMessage.content\<close> is \<open>string | Array<Record<string, unknown>>\<close>: a chunk is
  an object whose fields hold arbitrary JSON.
\<close>

type_synonym chunk = "(string \<times> json) list"

datatype message_content = Text string | Chunks "chunk list"

record ChatMessage =
  role :: string
  content :: message_content

record ProviderPayload =
  prompt :: string
  dataUrls :: "string list"
  httpImages :: "string list"

text \<open>
  \<open>OpenAIRequest\<close>: the declared fields with their declared types, and the index
  signature \<open>[extra: string]: unknown\<close> as the object of the remaining fields.
\<close>

record OpenAIRequest =
  req_model :: "string option"
  req_messages :: "ChatMessage list"
  req_n :: "rat option"
  req_size :: "string option"
  req_seed :: "rat option"
  req_extra :: "(string \<times> json) list"

datatype provider = Ark | SiliconFlow

text \<open>
  What the code throws: the \<open>Error\<close> of \<open>coerceMessagePayload\<close> (its message says that
  no prompt text could be parsed from the user messages), the \<open>Response\<close> thrown on a
  non-success upstream status (status and upstream body), the rejection of
  \<open>res.json()\<close> on a body that is not JSON, and the \<open>TypeError\<close> of a property read
  on \<open>null\<close>.
\<close>

datatype thrown =
    PromptError
  | UpstreamResponse nat string
  | JsonSyntaxError
  | TypeError

section \<open>Routing\<close>

definition detectProvider :: "string option \<Rightarrow> provider" where
  "detectProvider model =
     (case model of
        None \<Rightarrow> Ark
      | Some m \<Rightarrow>
          if m = [] then Ark
          else if startsWith m ''Qwen/'' \<or> startsWith m ''Kwai-Kolors/'' \<or> includesStr m ''siliconflow''
          then SiliconFlow
          else Ark)"

section \<open>Message interpreter\<close>

text \<open>
  \<open>coerceMessagePayload\<close> is defined twice in the repository, in \<open>sf-adapter.ts\<close> and in
  the later multi-endpoint server. The two bodies differ in how they read the chunk's
  type (\<open>chunk?.type\<close> against \<open>chunk.type\<close> under a cast), which is the same read on a
  chunk of the declared type, so one model serves both.

  The body of the inner loop: one chunk, the payload passed through. The two \<open>if\<close>
  statements run one after the other.
\<close>

definition scanChunk :: "ProviderPayload \<Rightarrow> chunk \<Rightarrow> ProviderPayload" where
  "scanChunk payload chunk =
     (let type = map_of chunk ''type'';
          p1 = (if type = Some (JStr ''text'') \<and> typeof (map_of chunk ''text'') = TString
                then (case map_of chunk ''text'' of
                        Some (JStr t) \<Rightarrow> payload\<lparr>prompt := trim t\<rparr>
                      | _ \<Rightarrow> payload)
                else payload);
          image_url = map_of chunk ''image_url''
      in if type = Some (JStr ''image_url'') \<and> typeof image_url = TObject \<and> truthy image_url
            \<and> typeof (getProp image_url ''url'') = TString
         then (case getProp image_url ''url'' of
                 Some (JStr url) \<Rightarrow>
                   if startsWith url ''data:''
                   then p1\<lparr>dataUrls := dataUrls p1 @ [url]\<rparr>
                   else p1\<lparr>httpImages := httpImages p1 @ [url]\<rparr>
               | _ \<Rightarrow> p1)
         else p1)"

text \<open>The body of the outer loop for one user message.\<close>

definition scanMessage :: "ProviderPayload \<Rightarrow> ChatMessage \<Rightarrow> ProviderPayload" where
  "scanMessage payload m =
     (case content m of
        Text s \<Rightarrow> payload\<lparr>prompt := trim s\<rparr>
      | Chunks cs \<Rightarrow> foldl scanChunk payload cs)"

text \<open>
  The outer loop, \<open>for (let i = messages.length - 1; i >= 0; i--)\<close>, as a recursion
  over the messages in scanning order (most recent first).
\<close>

fun scanMessages :: "ChatMessage list \<Rightarrow> ProviderPayload \<Rightarrow> ProviderPayload" where
  "scanMessages [] payload = payload"
| "scanMessages (m # ms) payload =
     (if role m \<noteq> ''user'' then scanMessages ms payload
      else let p = scanMessage payload m
           in if prompt p \<noteq> [] then p else scanMessages ms p)"

definition coerceMessagePayload :: "ChatMessage list \<Rightarrow> thrown + ProviderPayload" where
  "coerceMessagePayload messages =
     (let payload = scanMessages (rev messages) \<lparr>prompt = [], dataUrls = [], httpImages = []\<rparr>
      in if prompt payload = [] then Inl PromptError else Inr payload)"

subsection \<open>Chunks as they arrive\<close>

text \<open>
  The request body is the value of \<open>req.json()\<close> and nothing checks it against
  \<open>ChatMessage\<close>: at run time the content of a message is any JSON value and an element
  of a content array is any JSON value. On such input the two definitions of
  \<open>coerceMessagePayload\<close> part: \<open>sf-adapter.ts\<close> reads \<open>chunk?.type\<close>, which is
  \<open>undefined\<close> on \<open>null\<close>; the later server reads \<open>(chunk as { type?: unknown }).type\<close>,
  a plain property read, which throws on \<open>null\<close>. Every other read of the loop body
  stands behind \<open>type === "text"\<close> or \<open>type === "image_url"\<close> and so runs on objects
  only. The loops below are the same loops with the read of the type as a parameter and
  the exception passed on.
\<close>

record RawMessage =
  raw_role :: string
  raw_content :: json

definition chunkType_adapter :: "json \<Rightarrow> thrown + json option" where
  "chunkType_adapter chunk = Inr (getProp (Some chunk) ''type'')"

definition chunkType_server :: "json \<Rightarrow> thrown + json option" where
  "chunkType_server chunk =
     (if chunk = JNull then Inl TypeError else Inr (getProp (Some chunk) ''type''))"

definition scanRawChunk ::
  "(json \<Rightarrow> thrown + json option) \<Rightarrow> ProviderPayload \<Rightarrow> json \<Rightarrow> thrown + ProviderPayload" where
  "scanRawChunk readType payload chunk =
     (case readType chunk of
        Inl e \<Rightarrow> Inl e
      | Inr type \<Rightarrow>
          (let p1 = (if type = Some (JStr ''text'') \<and> typeof (getProp (Some chunk) ''text'') = TString
                     then (case getProp (Some chunk) ''text'' of
                             Some (JStr t) \<Rightarrow> payload\<lparr>prompt := trim t\<rparr>
                           | _ \<Rightarrow> payload)
                     else payload);
               image_url = getProp (Some chunk) ''image_url''
           in Inr (if type = Some (JStr ''image_url'') \<and> typeof image_url = TObject
                      \<and> truthy image_url \<and> typeof (getProp image_url ''url'') = TString
                   then (case getProp image_url ''url'' of
                           Some (JStr url) \<Rightarrow>
                             if startsWith url ''data:''
                             then p1\<lparr>dataUrls := dataUrls p1 @ [url]\<rparr>
                             else p1\<lparr>httpImages := httpImages p1 @ [url]\<rparr>
                         | _ \<Rightarrow> p1)
                   else p1)))"

fun scanRawChunks ::
  "(json \<Rightarrow> thrown + json option) \<Rightarrow> ProviderPayload \<Rightarrow> json list \<Rightarrow> thrown + ProviderPayload" where
  "scanRawChunks readType payload [] = Inr payload"
| "scanRawChunks readType payload (chunk # chunks) =
     (case scanRawChunk readType payload chunk of
        Inl e \<Rightarrow> Inl e
      | Inr p \<Rightarrow> scanRawChunks readType p chunks)"

definition scanRawMessage ::
  "(json \<Rightarrow> thrown + json option) \<Rightarrow> ProviderPayload \<Rightarrow> RawMessage \<Rightarrow> thrown + ProviderPayload" where
  "scanRawMessage readType payload m =
     (case raw_content m of
        JStr s \<Rightarrow> Inr (payload\<lparr>prompt := trim s\<rparr>)
      | JArr chunks \<Rightarrow> scanRawChunks readType payload chunks
      | _ \<Rightarrow> Inr payload)"

fun scanRawMessages ::
  "(json \<Rightarrow> thrown + json option) \<Rightarrow> RawMessage list \<Rightarrow> ProviderPayload \<Rightarrow> thrown + ProviderPayload" where
  "scanRawMessages readType [] payload = Inr payload"
| "scanRawMessages readType (m # ms) payload =
     (if raw_role m \<noteq> ''user'' then scanRawMessages readType ms payload
      else case scanRawMessage readType payload m of
             Inl e \<Rightarrow> Inl e
           | Inr p \<Rightarrow> if prompt p \<noteq> [] then Inr p else scanRawMessages readType ms p)"

definition coerceRaw ::
  "(json \<Rightarrow> thrown + json option) \<Rightarrow> RawMessage list \<Rightarrow> thrown + ProviderPayload" where
  "coerceRaw readType messages =
     (case scanRawMessages readType (rev messages) \<lparr>prompt = [], dataUrls = [], httpImages = []\<rparr> of
        Inl e \<Rightarrow> Inl e
      | Inr payload \<Rightarrow> if prompt payload = [] then Inl PromptError else Inr payload)"

text \<open>The function of \<open>sf-adapter.ts\<close> and the function of the later server.\<close>

definition coerceMessagePayload_adapter :: "RawMessage list \<Rightarrow> thrown + ProviderPayload" where
  "coerceMessagePayload_adapter = coerceRaw chunkType_adapter"

definition coerceMessagePayload_server :: "RawMessage list \<Rightarrow> thrown + ProviderPayload" where
  "coerceMessagePayload_server = coerceRaw chunkType_server"

section \<open>Request builders\<close>

text \<open>
  \<open>callArk\<close> and \<open>callSiliconFlow\<close> build the provider's request body, send it with
  \<open>fetch\<close> and reshape the reply. The request bodies are the objects handed to
  \<open>JSON.stringify\<close>, keys in insertion order. \<open>if (c) body.k = v\<close> on a fresh key is
  \<open>optField\<close>.
\<close>

definition ARK_API_URL :: string where
  "ARK_API_URL = ''https://ark.cn-beijing.volces.com/api/v3/images/generations''"

definition SILICONFLOW_API_URL :: string where
  "SILICONFLOW_API_URL = ''https://api.siliconflow.cn/v1/images/generations''"

fun optField :: "string \<Rightarrow> json option \<Rightarrow> (string \<times> json) list \<Rightarrow> (string \<times> json) list" where
  "optField key None body = body"
| "optField key (Some v) body = body @ [(key, v)]"

text \<open>\<open>const n = requestBody.n ? clamp(requestBody.n, 1, 4) : undefined\<close> of \<open>callArk\<close>.\<close>

definition arkCount :: "OpenAIRequest \<Rightarrow> rat option" where
  "arkCount requestBody =
     (if truthy (map_option JNum (req_n requestBody))
      then map_option (\<lambda>v. clamp v 1 4) (req_n requestBody)
      else None)"

definition arkModel :: "OpenAIRequest \<Rightarrow> string" where
  "arkModel requestBody =
     (case req_model requestBody of Some m \<Rightarrow> m | None \<Rightarrow> ''doubao-seedream-4-0-250828'')"

definition arkRequest :: "OpenAIRequest \<Rightarrow> ProviderPayload \<Rightarrow> (string \<times> json) list" where
  "arkRequest requestBody payload =
     (let size = (case req_size requestBody of Some s \<Rightarrow> s | None \<Rightarrow> ''1024x1024'');
          n = arkCount requestBody;
          request =
            [(''model'', JStr (arkModel requestBody)),
             (''prompt'', JStr (prompt payload)),
             (''image'', JArr (map JStr (httpImages payload))),
             (''sequential_image_generation'',
                JStr (if truthy (map_option JNum n) then ''auto'' else ''disabled'')),
             (''response_format'', JStr ''b64_json''),
             (''size'', JStr size),
             (''seed'', JNum (case req_seed requestBody of Some v \<Rightarrow> v | None \<Rightarrow> - 1)),
             (''stream'', JBool False),
             (''watermark'', JBool False)]
      in optField ''sequential_image_generation_options''
           (if truthy (map_option JNum n)
            then map_option (\<lambda>v. JObj [(''max_images'', JNum v)]) n
            else None)
           request)"

definition siliconFlowModel :: "OpenAIRequest \<Rightarrow> string" where
  "siliconFlowModel requestBody =
     (case req_model requestBody of Some m \<Rightarrow> m | None \<Rightarrow> ''Qwen/Qwen-Image'')"

text \<open>\<open>typeof x === "string" ? x : undefined\<close> and the same for numbers.\<close>

fun asString :: "json option \<Rightarrow> string option" where
  "asString (Some (JStr s)) = Some s"
| "asString _ = None"

fun asNumber :: "json option \<Rightarrow> rat option" where
  "asNumber (Some (JNum v)) = Some v"
| "asNumber _ = None"

definition siliconFlowBody :: "OpenAIRequest \<Rightarrow> ProviderPayload \<Rightarrow> (string \<times> json) list" where
  "siliconFlowBody requestBody payload =
     (let model = siliconFlowModel requestBody;
          n = clamp (case req_n requestBody of Some v \<Rightarrow> v | None \<Rightarrow> 1) 1 4;
          extra = map_of (req_extra requestBody);
          body0 = [(''model'', JStr model), (''prompt'', JStr (prompt payload)), (''batch_size'', JNum n)];
          overrideSize =
            (case req_size requestBody of
               Some s \<Rightarrow> Some s
             | None \<Rightarrow> asString (extra ''image_size''));
          body1 = body0 @
            [(''image_size'',
              JStr (case overrideSize of
                      Some s \<Rightarrow> s
                    | None \<Rightarrow> if startsWith model ''Kwai-Kolors/'' then ''1024x1024'' else ''1328x1328''))];
          negative = asString (extra ''negative_prompt'');
          body2 = optField ''negative_prompt''
                    (if truthy (map_option JStr negative) then map_option JStr negative else None) body1;
          body3 = optField ''seed''
                    (map_option (\<lambda>v. JNum (clamp v 0 9999999999)) (req_seed requestBody)) body2;
          body4 = optField ''num_inference_steps''
                    (map_option (\<lambda>v. JNum (clamp v 1 100)) (asNumber (extra ''num_inference_steps''))) body3;
          body5 = optField ''guidance_scale''
                    (map_option (\<lambda>v. JNum (clamp v 0 20)) (asNumber (extra ''guidance_scale''))) body4;
          body6 = optField ''cfg''
                    (map_option (\<lambda>v. JNum (clamp v (1 / 10) 20)) (asNumber (extra ''cfg''))) body5
      in optField ''image''
           (case dataUrls payload of [] \<Rightarrow> None | u # us \<Rightarrow> Some (JStr u))
           body6)"

section \<open>Response normalizers\<close>

text \<open>
  The reply of \<open>fetch\<close>: \<open>res.ok\<close>, \<open>res.status\<close>, \<open>await res.text()\<close> and
  \<open>await res.json()\<close> (\<open>None\<close> when the body is not JSON and the promise rejects).
\<close>

record UpstreamReply =
  res_ok :: bool
  res_status :: nat
  res_text :: string
  res_json :: "json option"

record ProviderImage =
  image_url :: string
  image_size :: "string option"

record ProviderResult =
  out_data :: "ProviderImage list"
  out_usage :: "json option"
  out_created :: rat
  out_model :: string
  out_timings :: "json option"
  out_seed :: "json option"

text \<open>The \<open>url\<close> of the \<open>.map\<close> callbacks of both providers.\<close>

definition entryUrl :: "json \<Rightarrow> string option" where
  "entryUrl img =
     (if typeof (getProp (Some img) ''url'') = TString
      then asString (getProp (Some img) ''url'')
      else if typeof (getProp (Some img) ''b64_json'') = TString
      then map_option (\<lambda>b. ''data:image/png;base64,'' @ b) (asString (getProp (Some img) ''b64_json''))
      else None)"

definition arkImage :: "json \<Rightarrow> ProviderImage option" where
  "arkImage img =
     (let url = entryUrl img
      in if \<not> truthy (map_option JStr url) then None
         else map_option
                (\<lambda>u. \<lparr>image_url = u, image_size = asString (getProp (Some img) ''size'')\<rparr>) url)"

definition siliconFlowImage :: "json \<Rightarrow> ProviderImage option" where
  "siliconFlowImage img =
     (let url = entryUrl img
      in if \<not> truthy (map_option JStr url) then None
         else map_option (\<lambda>u. \<lparr>image_url = u, image_size = None\<rparr>) url)"

text \<open>\<open>Array.isArray(x) ? x.map(f).filter(Boolean) : []\<close>.\<close>

fun mapImages :: "(json \<Rightarrow> ProviderImage option) \<Rightarrow> json option \<Rightarrow> ProviderImage list" where
  "mapImages f (Some (JArr imgs)) = List.map_filter f imgs"
| "mapImages f _ = []"

text \<open>
  The part of \<open>callArk\<close> after \<open>await res.json()\<close>: the returned object, from the
  parsed reply \<open>arkData\<close>. \<open>now\<close> is the value of \<open>Date.now()\<close>, in milliseconds, when
  the reply is handled.
\<close>

definition arkResult :: "int \<Rightarrow> OpenAIRequest \<Rightarrow> json \<Rightarrow> ProviderResult" where
  "arkResult now requestBody arkData =
     \<lparr>out_data = mapImages arkImage (getProp (Some arkData) ''data''),
      out_usage = getProp (Some arkData) ''usage'',
      out_created =
        (if typeof (getProp (Some arkData) ''created'') = TNumber
         then (case asNumber (getProp (Some arkData) ''created'') of
                 Some c \<Rightarrow> c
               | None \<Rightarrow> of_int (now div 1000))
         else of_int (now div 1000)),
      out_model = arkModel requestBody,
      out_timings = None,
      out_seed = None\<rparr>"

text \<open>The same part of \<open>callSiliconFlow\<close>.\<close>

definition siliconFlowResult :: "int \<Rightarrow> OpenAIRequest \<Rightarrow> json \<Rightarrow> ProviderResult" where
  "siliconFlowResult now requestBody data =
     \<lparr>out_data = mapImages siliconFlowImage (getProp (Some data) ''images''),
      out_usage = None,
      out_created = of_int (now div 1000),
      out_model = siliconFlowModel requestBody,
      out_timings = getProp (Some data) ''timings'',
      out_seed = getProp (Some data) ''seed''\<rparr>"

text \<open>
  The calls themselves: \<open>fetch\<close> is a parameter (address, bearer key, request body).
  A non-success status throws a \<open>Response\<close> with the upstream status and body.
\<close>

definition callArk ::
  "(string \<Rightarrow> string \<Rightarrow> json \<Rightarrow> UpstreamReply) \<Rightarrow> int \<Rightarrow> string \<Rightarrow> OpenAIRequest
     \<Rightarrow> ProviderPayload \<Rightarrow> thrown + ProviderResult" where
  "callArk fetch now apiKey requestBody payload =
     (let res = fetch ARK_API_URL apiKey (JObj (arkRequest requestBody payload))
      in if \<not> res_ok res then Inl (UpstreamResponse (res_status res) (res_text res))
         else case res_json res of
                None \<Rightarrow> Inl JsonSyntaxError
              | Some arkData \<Rightarrow> Inr (arkResult now requestBody arkData))"

definition callSiliconFlow ::
  "(string \<Rightarrow> string \<Rightarrow> json \<Rightarrow> UpstreamReply) \<Rightarrow> int \<Rightarrow> string \<Rightarrow> OpenAIRequest
     \<Rightarrow> ProviderPayload \<Rightarrow> thrown + ProviderResult" where
  "callSiliconFlow fetch now apiKey requestBody payload =
     (let res = fetch SILICONFLOW_API_URL apiKey (JObj (siliconFlowBody requestBody payload))
      in if \<not> res_ok res then Inl (UpstreamResponse (res_status res) (res_text res))
         else case res_json res of
                None \<Rightarrow> Inl JsonSyntaxError
              | Some data \<Rightarrow> Inr (siliconFlowResult now requestBody data))"

section \<open>Specification vocabulary\<close>

text \<open>
  The notions the specification speaks in, defined by its words and compared below with
  the code: a well-formed text chunk and its text, a well-formed image-reference chunk
  and its URL, the image references of a chunk sequence in their original order, and
  what one message contributes on its own.
\<close>

definition chunkText :: "chunk \<Rightarrow> string option" where
  "chunkText c =
     (if map_of c ''type'' = Some (JStr ''text'') then asString (map_of c ''text'') else None)"

definition chunkImageUrl :: "chunk \<Rightarrow> string option" where
  "chunkImageUrl c =
     (if map_of c ''type'' = Some (JStr ''image_url'')
      then (case map_of c ''image_url'' of
              Some (JObj kvs) \<Rightarrow> asString (map_of kvs ''url'')
            | _ \<Rightarrow> None)
      else None)"

definition imageRefs :: "chunk list \<Rightarrow> string list" where
  "imageRefs cs = List.map_filter chunkImageUrl cs"

definition isDataUrl :: "string \<Rightarrow> bool" where
  "isDataUrl u = prefix ''data:'' u"

definition chunksPrompt :: "string \<Rightarrow> chunk list \<Rightarrow> string" where
  "chunksPrompt p0 cs =
     (case rev (List.map_filter chunkText cs) of [] \<Rightarrow> p0 | t # ts \<Rightarrow> trim t)"

definition messagePrompt :: "ChatMessage \<Rightarrow> string" where
  "messagePrompt m = (case content m of Text s \<Rightarrow> trim s | Chunks cs \<Rightarrow> chunksPrompt [] cs)"

definition messageImages :: "ChatMessage \<Rightarrow> string list" where
  "messageImages m = (case content m of Text s \<Rightarrow> [] | Chunks cs \<Rightarrow> imageRefs cs)"

definition userMessages :: "ChatMessage list \<Rightarrow> ChatMessage list" where
  "userMessages ms = filter (\<lambda>m. role m = ''user'') ms"

text \<open>
  A message of the declared type as the JSON it is parsed from, and the chunks of a raw
  content array that are objects, in their order.
\<close>

definition rawMessage :: "ChatMessage \<Rightarrow> RawMessage" where
  "rawMessage m =
     \<lparr>raw_role = role m,
      raw_content = (case content m of Text s \<Rightarrow> JStr s | Chunks cs \<Rightarrow> JArr (map JObj cs))\<rparr>"

fun objectChunks :: "json list \<Rightarrow> chunk list" where
  "objectChunks [] = []"
| "objectChunks (JObj kvs # cs) = kvs # objectChunks cs"
| "objectChunks (c # cs) = objectChunks cs"

text \<open>
  The per-image decoding rule in the specification's words, with the URL field counted
  only when it is a non-empty string: the direct URL first; the base64 payload, wrapped,
  when the URL field is absent or not a string; nothing otherwise.
\<close>

definition decodedUrl :: "json \<Rightarrow> string option" where
  "decodedUrl img =
     (case getProp (Some img) ''url'' of
        Some (JStr u) \<Rightarrow> if u = [] then None else Some u
      | _ \<Rightarrow>
          (case getProp (Some img) ''b64_json'' of
             Some (JStr b) \<Rightarrow> Some (''data:image/png;base64,'' @ b)
           | _ \<Rightarrow> None))"

section \<open>Routing: the claim\<close>

lemma startsWith_prefix: "startsWith s p = prefix p s"
  by (induction s p rule: startsWith.induct) auto

lemma includesStr_sublist: "includesStr s p = sublist p s"
  by (induction s) (auto simp: startsWith_prefix sublist_Cons_right)

text \<open>
  Claim C2. Routing is a function of the model field alone: an absent model goes to
  provider A (Ark); a model that starts with \<open>Qwen/\<close> or \<open>Kwai-Kolors/\<close>, or that has
  \<open>siliconflow\<close> as a substring, goes to provider B (SiliconFlow); every other model
  string goes to provider A.
\<close>

theorem detectProvider_routing:
  "detectProvider model =
     (case model of
        None \<Rightarrow> Ark
      | Some m \<Rightarrow>
          if prefix ''Qwen/'' m \<or> prefix ''Kwai-Kolors/'' m \<or> sublist ''siliconflow'' m
          then SiliconFlow else Ark)"
  by (auto simp: detectProvider_def startsWith_prefix includesStr_sublist split: option.splits)

text \<open>The routing examples of the specification.\<close>

lemma detectProvider_examples:
  "detectProvider (Some ''Qwen/Qwen-Image'') = SiliconFlow"
  "detectProvider (Some ''Kwai-Kolors/Kolors'') = SiliconFlow"
  "detectProvider (Some ''doubao-seedream-4-0-250828'') = Ark"
  "detectProvider None = Ark"
  "detectProvider (Some ''my-siliconflow-model'') = SiliconFlow"
  "detectProvider (Some ''gpt-image-1'') = Ark"
  by (simp_all add: detectProvider_def)

section \<open>Message interpreter: the loops\<close>

lemma typeof_string: "typeof x = TString \<longleftrightarrow> (\<exists>s. x = Some (JStr s))"
  by (cases x rule: typeof.cases) auto

lemma typeof_object:
  "typeof x = TObject \<and> truthy x \<longleftrightarrow> (\<exists>xs. x = Some (JArr xs)) \<or> (\<exists>kvs. x = Some (JObj kvs))"
  by (cases x rule: typeof.cases) auto

lemma asString_Some: "asString x = Some s \<longleftrightarrow> x = Some (JStr s)"
  by (cases x rule: asString.cases) auto

lemma asString_None: "asString x = None \<longleftrightarrow> (\<forall>s. x \<noteq> Some (JStr s))"
  by (cases x rule: asString.cases) auto

lemma scanChunk_eq:
  "scanChunk p c =
     p\<lparr>prompt := (case chunkText c of Some t \<Rightarrow> trim t | None \<Rightarrow> prompt p),
       dataUrls := dataUrls p @ filter isDataUrl (imageRefs [c]),
       httpImages := httpImages p @ filter (\<lambda>u. \<not> isDataUrl u) (imageRefs [c])\<rparr>"
proof (cases "map_of c ''type'' = Some (JStr ''text'')")
  case True
  then show ?thesis
    by (cases "map_of c ''text''" rule: asString.cases)
       (simp_all add: scanChunk_def chunkText_def chunkImageUrl_def imageRefs_def
          List.map_filter_simps Let_def)
next
  case notText: False
  show ?thesis
  proof (cases "map_of c ''type'' = Some (JStr ''image_url'')")
    case False
    with notText show ?thesis
      by (simp add: scanChunk_def chunkText_def chunkImageUrl_def imageRefs_def
            List.map_filter_simps Let_def)
  next
    case True
    show ?thesis
    proof (cases "map_of c ''image_url''" rule: typeof.cases)
      case (7 kvs)
      with True show ?thesis
        by (cases "map_of kvs ''url''" rule: asString.cases)
           (simp_all add: scanChunk_def chunkText_def chunkImageUrl_def imageRefs_def
              List.map_filter_simps Let_def isDataUrl_def startsWith_prefix)
    qed (use True in \<open>simp_all add: scanChunk_def chunkText_def chunkImageUrl_def imageRefs_def
              List.map_filter_simps Let_def\<close>)
  qed
qed

lemma imageRefs_Nil: "imageRefs [] = []"
  by (simp add: imageRefs_def List.map_filter_simps)

lemma imageRefs_append: "imageRefs (cs @ ds) = imageRefs cs @ imageRefs ds"
  by (simp add: imageRefs_def List.map_filter_def)

lemma chunksPrompt_snoc:
  "chunksPrompt p0 (cs @ [c]) =
     (case chunkText c of Some t \<Rightarrow> trim t | None \<Rightarrow> chunksPrompt p0 cs)"
  by (simp add: chunksPrompt_def List.map_filter_def split: option.splits)

lemma foldl_scanChunk:
  "foldl scanChunk p cs =
     p\<lparr>prompt := chunksPrompt (prompt p) cs,
       dataUrls := dataUrls p @ filter isDataUrl (imageRefs cs),
       httpImages := httpImages p @ filter (\<lambda>u. \<not> isDataUrl u) (imageRefs cs)\<rparr>"
proof (induction cs rule: rev_induct)
  case Nil
  show ?case by (simp add: chunksPrompt_def imageRefs_Nil List.map_filter_simps)
next
  case (snoc c cs)
  show ?case
    by (cases "chunkText c")
       (simp_all add: snoc.IH scanChunk_eq [of _ c] chunksPrompt_snoc imageRefs_append)
qed

lemma scanMessage_eq:
  "prompt p = [] \<Longrightarrow>
   scanMessage p m =
     \<lparr>prompt = messagePrompt m,
      dataUrls = dataUrls p @ filter isDataUrl (messageImages m),
      httpImages = httpImages p @ filter (\<lambda>u. \<not> isDataUrl u) (messageImages m)\<rparr>"
  by (cases "content m")
     (simp_all add: scanMessage_def messagePrompt_def messageImages_def foldl_scanChunk)

lemma scanMessages_silent:
  "prompt p = [] \<Longrightarrow> \<forall>m\<in>set ms. role m = ''user'' \<longrightarrow> messagePrompt m = [] \<Longrightarrow>
   scanMessages ms p =
     \<lparr>prompt = [],
      dataUrls = dataUrls p @ filter isDataUrl (concat (map messageImages (userMessages ms))),
      httpImages = httpImages p @ filter (\<lambda>u. \<not> isDataUrl u) (concat (map messageImages (userMessages ms)))\<rparr>"
proof (induction ms arbitrary: p)
  case Nil
  then show ?case by (simp add: userMessages_def)
next
  case (Cons m ms)
  show ?case
  proof (cases "role m = ''user''")
    case False
    with Cons show ?thesis by (simp add: userMessages_def)
  next
    case True
    with Cons.prems have silent: "messagePrompt m = []" by simp
    let ?q = "scanMessage p m"
    have q: "?q = \<lparr>prompt = [],
                   dataUrls = dataUrls p @ filter isDataUrl (messageImages m),
                   httpImages = httpImages p @ filter (\<lambda>u. \<not> isDataUrl u) (messageImages m)\<rparr>"
      using scanMessage_eq [OF Cons.prems(1), of m] silent by simp
    have "scanMessages (m # ms) p = scanMessages ms ?q"
      using True q by (simp add: Let_def)
    also have "\<dots> = \<lparr>prompt = [],
        dataUrls = dataUrls ?q @ filter isDataUrl (concat (map messageImages (userMessages ms))),
        httpImages = httpImages ?q @ filter (\<lambda>u. \<not> isDataUrl u) (concat (map messageImages (userMessages ms)))\<rparr>"
      using Cons.prems(2) q by (intro Cons.IH) simp_all
    finally show ?thesis
      using True by (simp add: q userMessages_def)
  qed
qed

lemma scanMessages_hit:
  assumes "prompt p = []"
    and "\<forall>x\<in>set ms1. role x = ''user'' \<longrightarrow> messagePrompt x = []"
    and "role m = ''user''" and "messagePrompt m \<noteq> []"
  shows "scanMessages (ms1 @ m # ms2) p =
     \<lparr>prompt = messagePrompt m,
      dataUrls = dataUrls p @ filter isDataUrl (concat (map messageImages (userMessages (ms1 @ [m])))),
      httpImages = httpImages p @ filter (\<lambda>u. \<not> isDataUrl u) (concat (map messageImages (userMessages (ms1 @ [m]))))\<rparr>"
  using assms
proof (induction ms1 arbitrary: p)
  case Nil
  then show ?case
    using scanMessage_eq [of p m] by (simp add: Let_def userMessages_def)
next
  case (Cons x xs)
  show ?case
  proof (cases "role x = ''user''")
    case False
    with Cons show ?thesis by (simp add: userMessages_def)
  next
    case True
    with Cons.prems have silent: "messagePrompt x = []" by simp
    let ?q = "scanMessage p x"
    have q: "?q = \<lparr>prompt = [],
                   dataUrls = dataUrls p @ filter isDataUrl (messageImages x),
                   httpImages = httpImages p @ filter (\<lambda>u. \<not> isDataUrl u) (messageImages x)\<rparr>"
      using scanMessage_eq [OF Cons.prems(1), of x] silent by simp
    have "scanMessages ((x # xs) @ m # ms2) p = scanMessages (xs @ m # ms2) ?q"
      using True q by (simp add: Let_def)
    also have "\<dots> = \<lparr>prompt = messagePrompt m,
        dataUrls = dataUrls ?q @ filter isDataUrl (concat (map messageImages (userMessages (xs @ [m])))),
        httpImages = httpImages ?q @ filter (\<lambda>u. \<not> isDataUrl u) (concat (map messageImages (userMessages (xs @ [m]))))\<rparr>"
      using Cons.prems q by (intro Cons.IH) simp_all
    finally show ?thesis
      using True by (simp add: q userMessages_def)
  qed
qed

lemma coerce_hit:
  assumes "role m = ''user''" and "messagePrompt m \<noteq> []"
    and "\<forall>x\<in>set post. role x = ''user'' \<longrightarrow> messagePrompt x = []"
  shows "coerceMessagePayload (pre @ m # post) =
     Inr \<lparr>prompt = messagePrompt m,
          dataUrls = filter isDataUrl (concat (map messageImages (userMessages (rev post @ [m])))),
          httpImages = filter (\<lambda>u. \<not> isDataUrl u)
                         (concat (map messageImages (userMessages (rev post @ [m]))))\<rparr>"
proof -
  have "scanMessages (rev post @ m # rev pre) \<lparr>prompt = [], dataUrls = [], httpImages = []\<rparr> =
     \<lparr>prompt = messagePrompt m,
      dataUrls = [] @ filter isDataUrl (concat (map messageImages (userMessages (rev post @ [m])))),
      httpImages = [] @ filter (\<lambda>u. \<not> isDataUrl u)
                         (concat (map messageImages (userMessages (rev post @ [m]))))\<rparr>"
    using assms by (subst scanMessages_hit) simp_all
  then show ?thesis
    using assms(2) by (simp add: coerceMessagePayload_def)
qed

lemma coerce_silent:
  assumes "\<forall>x\<in>set ms. role x = ''user'' \<longrightarrow> messagePrompt x = []"
  shows "coerceMessagePayload ms = Inl PromptError"
proof -
  have "prompt (scanMessages (rev ms) \<lparr>prompt = [], dataUrls = [], httpImages = []\<rparr>) = []"
    using assms by (subst scanMessages_silent) simp_all
  then show ?thesis
    by (simp add: coerceMessagePayload_def)
qed

lemma chunksPrompt_no_text:
  "\<forall>c\<in>set cs. chunkText c = None \<Longrightarrow> chunksPrompt p0 cs = p0"
proof -
  assume "\<forall>c\<in>set cs. chunkText c = None"
  then have "List.map_filter chunkText cs = []"
    by (induction cs) (simp_all add: List.map_filter_simps)
  then show ?thesis by (simp add: chunksPrompt_def)
qed

section \<open>Message interpreter: the claims\<close>

text \<open>
  Claim C1, as amended. For every message history containing a user message whose string
  content is non-empty after trimming, the extraction succeeds. The prompt is the one
  contributed by the most recent user message that contributes a non-empty prompt, and
  when the content of that message is a string, the prompt is that string trimmed.
\<close>

theorem extractPayload_string_prompt:
  assumes "m \<in> set messages" and "role m = ''user''" and "content m = Text s" and "trim s \<noteq> []"
  shows "\<exists>p pre m' post.
           coerceMessagePayload messages = Inr p \<and> messages = pre @ m' # post
         \<and> role m' = ''user'' \<and> messagePrompt m' \<noteq> []
         \<and> (\<forall>x\<in>set post. role x = ''user'' \<longrightarrow> messagePrompt x = [])
         \<and> prompt p = messagePrompt m'
         \<and> (\<forall>t. content m' = Text t \<longrightarrow> prompt p = trim t)"
proof -
  have "\<exists>x\<in>set messages. role x = ''user'' \<and> messagePrompt x \<noteq> []"
    using assms by (auto simp: messagePrompt_def)
  then obtain pre m' post where split: "messages = pre @ m' # post"
    and m': "role m' = ''user'' \<and> messagePrompt m' \<noteq> []"
    and post: "\<forall>x\<in>set post. \<not> (role x = ''user'' \<and> messagePrompt x \<noteq> [])"
    using split_list_last_prop [of messages "\<lambda>x. role x = ''user'' \<and> messagePrompt x \<noteq> []"]
    by blast
  from post have silent: "\<forall>x\<in>set post. role x = ''user'' \<longrightarrow> messagePrompt x = []"
    by blast
  let ?p = "\<lparr>prompt = messagePrompt m',
          dataUrls = filter isDataUrl (concat (map messageImages (userMessages (rev post @ [m'])))),
          httpImages = filter (\<lambda>u. \<not> isDataUrl u)
                         (concat (map messageImages (userMessages (rev post @ [m']))))\<rparr>"
  have run: "coerceMessagePayload messages = Inr ?p"
    unfolding split using m' silent by (intro coerce_hit) simp_all
  have "\<forall>t. content m' = Text t \<longrightarrow> prompt ?p = trim t"
    by (simp add: messagePrompt_def)
  with run split m' silent show ?thesis
    by (intro exI [of _ ?p] exI [of _ pre] exI [of _ m'] exI [of _ post]) simp
qed

theorem extractPayload_string_prompt_witness:
  "(\<lparr>role = ''user'', content = Text ''  a cat ''\<rparr>
      \<in> set [\<lparr>role = ''user'', content = Text ''old''\<rparr>,
              \<lparr>role = ''user'', content = Text ''  a cat ''\<rparr>,
              \<lparr>role = ''assistant'', content = Text ''done''\<rparr>]
    \<and> trim ''  a cat '' \<noteq> [])
   \<and> (\<exists>p. coerceMessagePayload
              [\<lparr>role = ''user'', content = Text ''old''\<rparr>,
               \<lparr>role = ''user'', content = Text ''  a cat ''\<rparr>,
               \<lparr>role = ''assistant'', content = Text ''done''\<rparr>] = Inr p
          \<and> prompt p = ''a cat'')"
  using extractPayload_string_prompt
    [of "\<lparr>role = ''user'', content = Text ''  a cat ''\<rparr>"
        "[\<lparr>role = ''user'', content = Text ''old''\<rparr>,
          \<lparr>role = ''user'', content = Text ''  a cat ''\<rparr>,
          \<lparr>role = ''assistant'', content = Text ''done''\<rparr>]"
        "''  a cat ''"]
  by (simp add: coerceMessagePayload_def scanMessage_def trim_def isWhiteSpace_def)

text \<open>
  As first stated, C1 asks only for non-empty string content. A user message whose
  string content is white space alone is non-empty, contributes the empty prompt, and
  the extraction throws.
\<close>

theorem extractPayload_blank_string_counterexample:
  "coerceMessagePayload [\<lparr>role = ''user'', content = Text ''   ''\<rparr>] = Inl PromptError"
  by (simp add: coerceMessagePayload_def scanMessage_def trim_def isWhiteSpace_def)

text \<open>
  The raw loops against the loops over the declared type: an object chunk is scanned as
  before, any other chunk is passed over, except that the server's read throws on
  \<open>null\<close>. On messages of the declared type both functions are \<open>coerceMessagePayload\<close>.
\<close>

lemma scanRawChunk_object:
  "readType (JObj kvs) = Inr (map_of kvs ''type'') \<Longrightarrow>
   scanRawChunk readType p (JObj kvs) = Inr (scanChunk p kvs)"
  by (simp add: scanRawChunk_def scanChunk_def Let_def)

lemma scanRawChunk_other:
  "readType c = Inr None \<Longrightarrow> scanRawChunk readType p c = Inr p"
  by (simp add: scanRawChunk_def Let_def)

lemma scanRawChunk_adapter:
  "scanRawChunk chunkType_adapter p c =
     Inr (case c of JObj kvs \<Rightarrow> scanChunk p kvs | _ \<Rightarrow> p)"
  by (cases c) (simp_all add: scanRawChunk_object scanRawChunk_other chunkType_adapter_def)

lemma scanRawChunk_server:
  "scanRawChunk chunkType_server p c =
     (case c of JNull \<Rightarrow> Inl TypeError | JObj kvs \<Rightarrow> Inr (scanChunk p kvs) | _ \<Rightarrow> Inr p)"
proof (cases c)
  case JNull
  then show ?thesis by (simp add: scanRawChunk_def chunkType_server_def)
qed (simp_all add: scanRawChunk_object scanRawChunk_other chunkType_server_def)

lemma scanRawChunks_adapter:
  "scanRawChunks chunkType_adapter p cs = Inr (foldl scanChunk p (objectChunks cs))"
proof (induction cs arbitrary: p)
  case Nil
  show ?case by simp
next
  case (Cons c cs)
  show ?case
    by (cases c) (simp_all add: Cons.IH scanRawChunk_adapter)
qed

lemma scanRawChunks_server:
  "scanRawChunks chunkType_server p cs =
     (if JNull \<in> set cs then Inl TypeError else Inr (foldl scanChunk p (objectChunks cs)))"
proof (induction cs arbitrary: p)
  case Nil
  show ?case by simp
next
  case (Cons c cs)
  show ?case
    by (cases c) (simp_all add: Cons.IH scanRawChunk_server)
qed

lemma objectChunks_map_JObj: "objectChunks (map JObj cs) = cs"
  by (induction cs) simp_all

lemma scanRawMessage_typed:
  assumes "readType = chunkType_adapter \<or> readType = chunkType_server"
  shows "scanRawMessage readType p (rawMessage m) = Inr (scanMessage p m)"
  using assms
  by (cases "content m")
     (auto simp: scanRawMessage_def rawMessage_def scanMessage_def scanRawChunks_adapter
        scanRawChunks_server objectChunks_map_JObj)

lemma scanRawMessages_typed:
  assumes "readType = chunkType_adapter \<or> readType = chunkType_server"
  shows "scanRawMessages readType (map rawMessage ms) p = Inr (scanMessages ms p)"
proof (induction ms arbitrary: p)
  case Nil
  show ?case by simp
next
  case (Cons m ms)
  have role: "raw_role (rawMessage m) = role m" by (simp add: rawMessage_def)
  show ?case
    by (simp add: role scanRawMessage_typed [OF assms] Cons.IH Let_def)
qed

lemma coerceRaw_typed:
  assumes "readType = chunkType_adapter \<or> readType = chunkType_server"
  shows "coerceRaw readType (map rawMessage ms) = coerceMessagePayload ms"
  using scanRawMessages_typed [OF assms, of "rev ms"]
  by (simp add: coerceRaw_def coerceMessagePayload_def rev_map Let_def)

lemma coerceMessagePayload_variants_agree:
  "coerceMessagePayload_adapter (map rawMessage ms) = coerceMessagePayload ms"
  "coerceMessagePayload_server (map rawMessage ms) = coerceMessagePayload ms"
  by (simp_all add: coerceMessagePayload_adapter_def coerceMessagePayload_server_def coerceRaw_typed)

text \<open>
  The extraction on one user message holding a chunk sequence. In \<open>sf-adapter.ts\<close> the
  result follows the specification for every chunk sequence: the prompt of the last
  well-formed text chunk, the \<open>data:\<close> URLs of the well-formed image references in
  \<open>dataUrls\<close> and the other URLs in \<open>httpImages\<close>, each in the chunks' order, every other
  chunk passed over. The server does the same unless a chunk is \<open>null\<close>, and throws
  when one is.
\<close>

lemma coerceMessagePayload_single_chunks:
  "coerceMessagePayload_adapter [\<lparr>raw_role = ''user'', raw_content = JArr cs\<rparr>] =
     (if chunksPrompt [] (objectChunks cs) = [] then Inl PromptError
      else Inr \<lparr>prompt = chunksPrompt [] (objectChunks cs),
                dataUrls = filter isDataUrl (imageRefs (objectChunks cs)),
                httpImages = filter (\<lambda>u. \<not> isDataUrl u) (imageRefs (objectChunks cs))\<rparr>)"
  "coerceMessagePayload_server [\<lparr>raw_role = ''user'', raw_content = JArr cs\<rparr>] =
     (if JNull \<in> set cs then Inl TypeError
      else if chunksPrompt [] (objectChunks cs) = [] then Inl PromptError
      else Inr \<lparr>prompt = chunksPrompt [] (objectChunks cs),
                dataUrls = filter isDataUrl (imageRefs (objectChunks cs)),
                httpImages = filter (\<lambda>u. \<not> isDataUrl u) (imageRefs (objectChunks cs))\<rparr>)"
  by (simp_all add: coerceMessagePayload_adapter_def coerceMessagePayload_server_def coerceRaw_def
        scanRawMessage_def scanRawChunks_adapter scanRawChunks_server foldl_scanChunk)

text \<open>
  Claim C3. For every chunk sequence the extraction processes, each well-formed
  image-reference chunk whose URL begins with \<open>data:\<close> is appended to the embedded
  images and each other well-formed image reference to the remote images, in the chunks'
  original order, and a malformed chunk is skipped without an error. The server breaks
  the last part: on the content \<open>[null, image, image, text]\<close> its extraction throws a
  \<open>TypeError\<close> at the \<open>null\<close> chunk, where the extraction of \<open>sf-adapter.ts\<close> skips
  that chunk and returns the prompt and both images.
\<close>

theorem coerceMessagePayload_null_chunk:
  "coerceMessagePayload_server
     [\<lparr>raw_role = ''user'',
       raw_content = JArr
         [JNull,
          JObj [(''type'', JStr ''image_url''),
                (''image_url'', JObj [(''url'', JStr ''data:image/png;base64,AAAA'')])],
          JObj [(''type'', JStr ''image_url''),
                (''image_url'', JObj [(''url'', JStr ''http://x/1.png'')])],
          JObj [(''type'', JStr ''text''), (''text'', JStr ''a cat'')]]\<rparr>]
     = Inl TypeError
   \<and> coerceMessagePayload_adapter
     [\<lparr>raw_role = ''user'',
       raw_content = JArr
         [JNull,
          JObj [(''type'', JStr ''image_url''),
                (''image_url'', JObj [(''url'', JStr ''data:image/png;base64,AAAA'')])],
          JObj [(''type'', JStr ''image_url''),
                (''image_url'', JObj [(''url'', JStr ''http://x/1.png'')])],
          JObj [(''type'', JStr ''text''), (''text'', JStr ''a cat'')]]\<rparr>]
     = Inr \<lparr>prompt = ''a cat'',
            dataUrls = [''data:image/png;base64,AAAA''],
            httpImages = [''http://x/1.png'']\<rparr>"
  by (simp add: coerceMessagePayload_server_def coerceMessagePayload_adapter_def coerceRaw_def
        scanRawMessage_def scanRawChunk_def chunkType_server_def chunkType_adapter_def
        trim_def isWhiteSpace_def Let_def)

text \<open>
  Claim C4. For every message history in which no message has the role \<open>user\<close>, or in
  which every user message holds a chunk sequence without a well-formed text chunk (so
  chunks that are neither text nor image, and image references too), the extraction
  throws its error and returns no payload.
\<close>

theorem extractPayload_no_prompt:
  assumes "\<forall>m\<in>set messages. role m = ''user'' \<longrightarrow>
             (\<exists>cs. content m = Chunks cs \<and> (\<forall>c\<in>set cs. chunkText c = None))"
  shows "coerceMessagePayload messages = Inl PromptError"
proof (rule coerce_silent, intro ballI impI)
  fix x assume "x \<in> set messages" and "role x = ''user''"
  with assms obtain cs where "content x = Chunks cs" and "\<forall>c\<in>set cs. chunkText c = None"
    by blast
  then show "messagePrompt x = []"
    by (simp add: messagePrompt_def chunksPrompt_no_text)
qed

theorem extractPayload_no_prompt_witness:
  "chunkText [(''type'', JStr ''input_audio''), (''data'', JStr ''UklGRg=='')] = None
   \<and> chunkText [(''type'', JStr ''text''), (''text'', JNum 7)] = None
   \<and> coerceMessagePayload
        [\<lparr>role = ''system'', content = Text ''You draw pictures.''\<rparr>,
         \<lparr>role = ''user'',
          content = Chunks [[(''type'', JStr ''input_audio''), (''data'', JStr ''UklGRg=='')],
                            [(''type'', JStr ''text''), (''text'', JNum 7)]]\<rparr>]
       = Inl PromptError
   \<and> coerceMessagePayload [\<lparr>role = ''assistant'', content = Text ''hello''\<rparr>] = Inl PromptError"
  using extractPayload_no_prompt
    [of "[\<lparr>role = ''system'', content = Text ''You draw pictures.''\<rparr>,
         \<lparr>role = ''user'',
          content = Chunks [[(''type'', JStr ''input_audio''), (''data'', JStr ''UklGRg=='')],
                            [(''type'', JStr ''text''), (''text'', JNum 7)]]\<rparr>]"]
    extractPayload_no_prompt [of "[\<lparr>role = ''assistant'', content = Text ''hello''\<rparr>]"]
  by (simp add: chunkText_def)

text \<open>
  Claim C10. Let \<open>m\<close> be the most recent user message that contributes a non-empty
  prompt. The scan passes over the user messages after it, keeps their image references,
  and stops at \<open>m\<close>: the payload holds the prompt of \<open>m\<close> and the image references of
  all user messages from the most recent one back to \<open>m\<close>, in scanning order.
\<close>

theorem extractPayload_images_across_messages:
  assumes "role m = ''user''" and "messagePrompt m \<noteq> []"
    and "\<forall>x\<in>set post. role x = ''user'' \<longrightarrow> messagePrompt x = []"
  shows "coerceMessagePayload (pre @ m # post) =
     Inr \<lparr>prompt = messagePrompt m,
          dataUrls = filter isDataUrl (concat (map messageImages (userMessages (rev post @ [m])))),
          httpImages = filter (\<lambda>u. \<not> isDataUrl u)
                         (concat (map messageImages (userMessages (rev post @ [m]))))\<rparr>"
  using assms by (rule coerce_hit)

theorem extractPayload_images_across_messages_witness:
  "messagePrompt \<lparr>role = ''user'', content = Text ''draw a cat''\<rparr> \<noteq> []
   \<and> messagePrompt \<lparr>role = ''user'',
        content = Chunks [[(''type'', JStr ''image_url''),
                           (''image_url'', JObj [(''url'', JStr ''http://x/1.png'')])]]\<rparr> = []
   \<and> messagePrompt \<lparr>role = ''user'',
        content = Chunks [[(''type'', JStr ''image_url''),
                           (''image_url'', JObj [(''url'', JStr ''data:image/png;base64,AAAA'')])]]\<rparr> = []
   \<and> coerceMessagePayload
        ([] @ \<lparr>role = ''user'', content = Text ''draw a cat''\<rparr> #
         [\<lparr>role = ''assistant'', content = Text ''which one?''\<rparr>,
          \<lparr>role = ''user'',
           content = Chunks [[(''type'', JStr ''image_url''),
                              (''image_url'', JObj [(''url'', JStr ''http://x/1.png'')])]]\<rparr>,
          \<lparr>role = ''user'',
           content = Chunks [[(''type'', JStr ''image_url''),
                              (''image_url'', JObj [(''url'', JStr ''data:image/png;base64,AAAA'')])]]\<rparr>])
       = Inr \<lparr>prompt = ''draw a cat'',
              dataUrls = [''data:image/png;base64,AAAA''],
              httpImages = [''http://x/1.png'']\<rparr>"
  using extractPayload_images_across_messages
    [of "\<lparr>role = ''user'', content = Text ''draw a cat''\<rparr>"
        "[\<lparr>role = ''assistant'', content = Text ''which one?''\<rparr>,
          \<lparr>role = ''user'',
           content = Chunks [[(''type'', JStr ''image_url''),
                              (''image_url'', JObj [(''url'', JStr ''http://x/1.png'')])]]\<rparr>,
          \<lparr>role = ''user'',
           content = Chunks [[(''type'', JStr ''image_url''),
                              (''image_url'', JObj [(''url'', JStr ''data:image/png;base64,AAAA'')])]]\<rparr>]"
        "[]"]
  by (simp add: messagePrompt_def chunksPrompt_def chunkText_def chunkImageUrl_def imageRefs_def
        messageImages_def userMessages_def isDataUrl_def List.map_filter_simps trim_def
        isWhiteSpace_def)

section \<open>Request builders: the claims\<close>

lemma map_of_optField:
  "map_of (optField key v body) k =
     (if k = key then (case map_of body k of None \<Rightarrow> v | Some x \<Rightarrow> Some x) else map_of body k)"
  by (cases v) (auto simp: map_add_def split: option.splits)

lemma clamp_range: "lo \<le> hi \<Longrightarrow> lo \<le> clamp v lo hi \<and> clamp v lo hi \<le> hi"
  by (simp add: clamp_def)

lemma clamp_int:
  assumes "v \<in> \<int>"
  shows "clamp v 1 4 \<in> {1, 2, 3, 4}"
proof -
  from assms obtain k :: int where v: "v = of_int k" by (auto elim: Ints_cases)
  have "1 \<le> k \<and> k \<le> 4 \<Longrightarrow> k \<in> {1, 2, 3, 4}" by auto
  then show ?thesis
    unfolding v clamp_def by (cases "k \<le> 1"; cases "4 \<le> k") (auto simp: max_def min_def)
qed

lemma five_halves_not_int: "(5 / 2 :: rat) \<notin> \<int>"
proof
  assume "(5 / 2 :: rat) \<in> \<int>"
  then obtain k :: int where "(5 / 2 :: rat) = of_int k" by (auto elim: Ints_cases)
  then have "(of_int (2 * k) :: rat) = of_int 5" by simp
  then have "2 * k = 5" by (simp only: of_int_eq_iff)
  then show False by presburger
qed

text \<open>
  Claim C6, as amended. In the request built for provider A, whenever the caller
  requested a count \<open>n\<close> other than zero, the count is clamped to the range from 1 to 4
  without rounding (an integer count gives one of 1, 2, 3, 4; a count within the range
  is kept as it is) and the request asks for sequential generation (\<open>auto\<close>) with the
  clamped value as \<open>max_images\<close>. When no count was requested, the request asks for
  single-image mode (\<open>disabled\<close>) and carries no sequential-generation options.
\<close>

theorem arkRequest_count:
  "(req_n requestBody = Some v \<and> v \<noteq> 0 \<longrightarrow>
      map_of (arkRequest requestBody payload) ''sequential_image_generation'' = Some (JStr ''auto'')
    \<and> map_of (arkRequest requestBody payload) ''sequential_image_generation_options''
        = Some (JObj [(''max_images'', JNum (clamp v 1 4))])
    \<and> 1 \<le> clamp v 1 4 \<and> clamp v 1 4 \<le> 4
    \<and> (v \<in> \<int> \<longrightarrow> clamp v 1 4 \<in> {1, 2, 3, 4})
    \<and> (1 \<le> v \<and> v \<le> 4 \<longrightarrow> clamp v 1 4 = v))
   \<and> (req_n requestBody = None \<longrightarrow>
      map_of (arkRequest requestBody payload) ''sequential_image_generation'' = Some (JStr ''disabled'')
    \<and> map_of (arkRequest requestBody payload) ''sequential_image_generation_options'' = None)"
proof (intro conjI impI)
  assume n: "req_n requestBody = Some v \<and> v \<noteq> 0"
  have range: "1 \<le> clamp v 1 4 \<and> clamp v 1 4 \<le> 4"
    by (rule clamp_range) simp
  then have nz: "clamp v 1 4 \<noteq> 0" by auto
  from range show "1 \<le> clamp v 1 4" and "clamp v 1 4 \<le> 4" by simp_all
  have count: "arkCount requestBody = Some (clamp v 1 4)"
    using n by (simp add: arkCount_def)
  show "map_of (arkRequest requestBody payload) ''sequential_image_generation'' = Some (JStr ''auto'')"
    using nz by (simp add: arkRequest_def count map_of_optField del: optField.simps)
  show "map_of (arkRequest requestBody payload) ''sequential_image_generation_options''
        = Some (JObj [(''max_images'', JNum (clamp v 1 4))])"
    using nz by (simp add: arkRequest_def count map_of_optField del: optField.simps)
next
  assume "v \<in> \<int>"
  then show "clamp v 1 4 \<in> {1, 2, 3, 4}" by (rule clamp_int)
next
  assume "1 \<le> v \<and> v \<le> 4"
  then show "clamp v 1 4 = v" by (simp add: clamp_def)
next
  assume n: "req_n requestBody = None"
  then have count: "arkCount requestBody = None"
    by (simp add: arkCount_def)
  show "map_of (arkRequest requestBody payload) ''sequential_image_generation'' = Some (JStr ''disabled'')"
    by (simp add: arkRequest_def count map_of_optField del: optField.simps)
  show "map_of (arkRequest requestBody payload) ''sequential_image_generation_options'' = None"
    by (simp add: arkRequest_def count map_of_optField del: optField.simps)
qed

theorem arkRequest_count_witness:
  "(req_n \<lparr>req_model = None, req_messages = [\<lparr>role = ''user'', content = Text ''a cat''\<rparr>],
       req_n = Some 10, req_size = None, req_seed = None, req_extra = []\<rparr> = Some 10
     \<and> (10 :: rat) \<noteq> 0 \<and> (10 :: rat) \<in> \<int>)
   \<and> map_of (arkRequest
        \<lparr>req_model = None, req_messages = [\<lparr>role = ''user'', content = Text ''a cat''\<rparr>],
         req_n = Some 10, req_size = None, req_seed = None, req_extra = []\<rparr>
        \<lparr>prompt = ''a cat'', dataUrls = [], httpImages = []\<rparr>) ''sequential_image_generation_options''
       = Some (JObj [(''max_images'', JNum 4)])
   \<and> ((3 :: rat) \<noteq> 0 \<and> (1 :: rat) \<le> 3 \<and> (3 :: rat) \<le> 4)
   \<and> map_of (arkRequest
        \<lparr>req_model = None, req_messages = [\<lparr>role = ''user'', content = Text ''a cat''\<rparr>],
         req_n = Some 3, req_size = None, req_seed = None, req_extra = []\<rparr>
        \<lparr>prompt = ''a cat'', dataUrls = [], httpImages = []\<rparr>) ''sequential_image_generation_options''
       = Some (JObj [(''max_images'', JNum 3)])
   \<and> map_of (arkRequest
        \<lparr>req_model = None, req_messages = [\<lparr>role = ''user'', content = Text ''a cat''\<rparr>],
         req_n = None, req_size = None, req_seed = None, req_extra = []\<rparr>
        \<lparr>prompt = ''a cat'', dataUrls = [], httpImages = []\<rparr>) ''sequential_image_generation''
       = Some (JStr ''disabled'')"
  using arkRequest_count
    [of "\<lparr>req_model = None, req_messages = [\<lparr>role = ''user'', content = Text ''a cat''\<rparr>],
         req_n = Some 10, req_size = None, req_seed = None, req_extra = []\<rparr>" 10
        "\<lparr>prompt = ''a cat'', dataUrls = [], httpImages = []\<rparr>"]
    arkRequest_count
    [of "\<lparr>req_model = None, req_messages = [\<lparr>role = ''user'', content = Text ''a cat''\<rparr>],
         req_n = Some 3, req_size = None, req_seed = None, req_extra = []\<rparr>" 3
        "\<lparr>prompt = ''a cat'', dataUrls = [], httpImages = []\<rparr>"]
    arkRequest_count
    [of "\<lparr>req_model = None, req_messages = [\<lparr>role = ''user'', content = Text ''a cat''\<rparr>],
         req_n = None, req_size = None, req_seed = None, req_extra = []\<rparr>" 0
        "\<lparr>prompt = ''a cat'', dataUrls = [], httpImages = []\<rparr>"]
  by (simp add: clamp_def)

text \<open>
  As first stated, C6 asks for sequential generation whenever a count was requested,
  with the count clamped to the integers from 1 to 4. A requested count of 0 is falsy in
  \<open>requestBody.n ? clamp(requestBody.n, 1, 4) : undefined\<close> and the request is built in
  single-image mode; and \<open>clamp\<close> does not round, so a requested count of 2.5 is sent
  as \<open>max_images: 2.5\<close>.
\<close>

theorem arkRequest_count_counterexample:
  "map_of (arkRequest
      \<lparr>req_model = None, req_messages = [\<lparr>role = ''user'', content = Text ''a cat''\<rparr>],
       req_n = Some 0, req_size = None, req_seed = None, req_extra = []\<rparr>
      \<lparr>prompt = ''a cat'', dataUrls = [], httpImages = []\<rparr>) ''sequential_image_generation''
     = Some (JStr ''disabled'')
   \<and> map_of (arkRequest
      \<lparr>req_model = None, req_messages = [\<lparr>role = ''user'', content = Text ''a cat''\<rparr>],
       req_n = Some (5 / 2), req_size = None, req_seed = None, req_extra = []\<rparr>
      \<lparr>prompt = ''a cat'', dataUrls = [], httpImages = []\<rparr>) ''sequential_image_generation_options''
     = Some (JObj [(''max_images'', JNum (5 / 2))])
   \<and> (5 / 2 :: rat) \<notin> \<int>"
  by (simp add: arkRequest_def arkCount_def clamp_def five_halves_not_int)

text \<open>
  Claim C5, as amended. In the request built for provider B, \<open>batch_size\<close> is the
  requested count clamped to the range from 1 to 4, with 1 for an absent count, so a
  count of 10 gives 4. Each optional field is normalized on its own: a
  \<open>negative_prompt\<close> that is a non-empty string is passed through unchanged (an empty
  one is left out), \<open>seed\<close> is clamped to the range from 0 to 9999999999,
  \<open>num_inference_steps\<close> to the range from 1 to 100, \<open>guidance_scale\<close> to the range from
  0 to 20 and \<open>cfg\<close> to the range from 0.1 to 20; a field that is absent, or not of its
  type, is left out. A clamped value lies in its range, and a value in the range is
  unchanged.
\<close>

theorem siliconFlowBody_fields:
  "map_of (siliconFlowBody requestBody payload) ''batch_size''
     = Some (JNum (clamp (case req_n requestBody of Some v \<Rightarrow> v | None \<Rightarrow> 1) 1 4))
   \<and> (req_n requestBody = Some 10 \<longrightarrow>
        map_of (siliconFlowBody requestBody payload) ''batch_size'' = Some (JNum 4))
   \<and> map_of (siliconFlowBody requestBody payload) ''negative_prompt''
     = (case map_of (req_extra requestBody) ''negative_prompt'' of
          Some (JStr s) \<Rightarrow> if s = [] then None else Some (JStr s)
        | _ \<Rightarrow> None)
   \<and> map_of (siliconFlowBody requestBody payload) ''seed''
     = map_option (\<lambda>v. JNum (clamp v 0 9999999999)) (req_seed requestBody)
   \<and> map_of (siliconFlowBody requestBody payload) ''num_inference_steps''
     = (case map_of (req_extra requestBody) ''num_inference_steps'' of
          Some (JNum v) \<Rightarrow> Some (JNum (clamp v 1 100))
        | _ \<Rightarrow> None)
   \<and> map_of (siliconFlowBody requestBody payload) ''guidance_scale''
     = (case map_of (req_extra requestBody) ''guidance_scale'' of
          Some (JNum v) \<Rightarrow> Some (JNum (clamp v 0 20))
        | _ \<Rightarrow> None)
   \<and> map_of (siliconFlowBody requestBody payload) ''cfg''
     = (case map_of (req_extra requestBody) ''cfg'' of
          Some (JNum v) \<Rightarrow> Some (JNum (clamp v (1 / 10) 20))
        | _ \<Rightarrow> None)
   \<and> (lo \<le> hi \<longrightarrow> lo \<le> clamp x lo hi \<and> clamp x lo hi \<le> hi)
   \<and> (lo \<le> x \<and> x \<le> hi \<longrightarrow> clamp x lo hi = x)"
proof (intro conjI)
  show batch: "map_of (siliconFlowBody requestBody payload) ''batch_size''
     = Some (JNum (clamp (case req_n requestBody of Some v \<Rightarrow> v | None \<Rightarrow> 1) 1 4))"
    by (simp add: siliconFlowBody_def Let_def map_of_optField del: optField.simps)
  show "req_n requestBody = Some 10 \<longrightarrow>
        map_of (siliconFlowBody requestBody payload) ''batch_size'' = Some (JNum 4)"
    by (simp add: batch clamp_def)
  show "map_of (siliconFlowBody requestBody payload) ''negative_prompt''
     = (case map_of (req_extra requestBody) ''negative_prompt'' of
          Some (JStr s) \<Rightarrow> if s = [] then None else Some (JStr s)
        | _ \<Rightarrow> None)"
    by (cases "map_of (req_extra requestBody) ''negative_prompt''" rule: asString.cases)
       (simp_all add: siliconFlowBody_def Let_def map_of_optField del: optField.simps)
  show "map_of (siliconFlowBody requestBody payload) ''seed''
     = map_option (\<lambda>v. JNum (clamp v 0 9999999999)) (req_seed requestBody)"
    by (cases "req_seed requestBody")
       (simp_all add: siliconFlowBody_def Let_def map_of_optField del: optField.simps)
  show "map_of (siliconFlowBody requestBody payload) ''num_inference_steps''
     = (case map_of (req_extra requestBody) ''num_inference_steps'' of
          Some (JNum v) \<Rightarrow> Some (JNum (clamp v 1 100))
        | _ \<Rightarrow> None)"
    by (cases "map_of (req_extra requestBody) ''num_inference_steps''" rule: asNumber.cases)
       (simp_all add: siliconFlowBody_def Let_def map_of_optField del: optField.simps)
  show "map_of (siliconFlowBody requestBody payload) ''guidance_scale''
     = (case map_of (req_extra requestBody) ''guidance_scale'' of
          Some (JNum v) \<Rightarrow> Some (JNum (clamp v 0 20))
        | _ \<Rightarrow> None)"
    by (cases "map_of (req_extra requestBody) ''guidance_scale''" rule: asNumber.cases)
       (simp_all add: siliconFlowBody_def Let_def map_of_optField del: optField.simps)
  show "map_of (siliconFlowBody requestBody payload) ''cfg''
     = (case map_of (req_extra requestBody) ''cfg'' of
          Some (JNum v) \<Rightarrow> Some (JNum (clamp v (1 / 10) 20))
        | _ \<Rightarrow> None)"
    by (cases "map_of (req_extra requestBody) ''cfg''" rule: asNumber.cases)
       (simp_all add: siliconFlowBody_def Let_def map_of_optField del: optField.simps)
  show "lo \<le> hi \<longrightarrow> lo \<le> clamp x lo hi \<and> clamp x lo hi \<le> hi"
    by (simp add: clamp_def)
  show "lo \<le> x \<and> x \<le> hi \<longrightarrow> clamp x lo hi = x"
    by (simp add: clamp_def)
qed

theorem siliconFlowBody_fields_witness:
  "req_n \<lparr>req_model = Some ''Qwen/Qwen-Image'',
          req_messages = [\<lparr>role = ''user'', content = Text ''a cat''\<rparr>],
          req_n = Some 10, req_size = None, req_seed = Some (- 5),
          req_extra = [(''negative_prompt'', JStr ''blurry''), (''cfg'', JNum 0),
                       (''num_inference_steps'', JNum 500), (''guidance_scale'', JNum (15 / 2))]\<rparr>
     = Some 10
   \<and> map_of (siliconFlowBody
        \<lparr>req_model = Some ''Qwen/Qwen-Image'',
         req_messages = [\<lparr>role = ''user'', content = Text ''a cat''\<rparr>],
         req_n = Some 10, req_size = None, req_seed = Some (- 5),
         req_extra = [(''negative_prompt'', JStr ''blurry''), (''cfg'', JNum 0),
                      (''num_inference_steps'', JNum 500), (''guidance_scale'', JNum (15 / 2))]\<rparr>
        \<lparr>prompt = ''a cat'', dataUrls = [], httpImages = []\<rparr>) ''batch_size'' = Some (JNum 4)
   \<and> ((1 :: rat) / 10 \<le> 20 \<and> (1 :: rat) / 10 \<le> clamp 0 (1 / 10) 20 \<and> clamp 0 (1 / 10) 20 \<le> 20)
   \<and> ((1 :: rat) \<le> 3 \<and> (3 :: rat) \<le> 100 \<and> clamp 3 1 100 = 3)"
  using siliconFlowBody_fields
    [of "\<lparr>req_model = Some ''Qwen/Qwen-Image'',
         req_messages = [\<lparr>role = ''user'', content = Text ''a cat''\<rparr>],
         req_n = Some 10, req_size = None, req_seed = Some (- 5),
         req_extra = [(''negative_prompt'', JStr ''blurry''), (''cfg'', JNum 0),
                      (''num_inference_steps'', JNum 500), (''guidance_scale'', JNum (15 / 2))]\<rparr>"
        "\<lparr>prompt = ''a cat'', dataUrls = [], httpImages = []\<rparr>" "1 / 10" 20 0]
    siliconFlowBody_fields
    [of "\<lparr>req_model = Some ''Qwen/Qwen-Image'',
         req_messages = [\<lparr>role = ''user'', content = Text ''a cat''\<rparr>],
         req_n = Some 10, req_size = None, req_seed = Some (- 5),
         req_extra = [(''negative_prompt'', JStr ''blurry''), (''cfg'', JNum 0),
                      (''num_inference_steps'', JNum 500), (''guidance_scale'', JNum (15 / 2))]\<rparr>"
        "\<lparr>prompt = ''a cat'', dataUrls = [], httpImages = []\<rparr>" 1 100 3]
  by simp

text \<open>
  As first stated, C5 passes every \<open>negative_prompt\<close> present in the request through.
  The empty string is falsy in \<open>if (negative) body.negative_prompt = negative\<close> and the
  built request has no such field.
\<close>

theorem siliconFlowBody_empty_negative_counterexample:
  "map_of (siliconFlowBody
      \<lparr>req_model = Some ''Qwen/Qwen-Image'',
       req_messages = [\<lparr>role = ''user'', content = Text ''a cat''\<rparr>],
       req_n = None, req_size = None, req_seed = None,
       req_extra = [(''negative_prompt'', JStr [])]\<rparr>
      \<lparr>prompt = ''a cat'', dataUrls = [], httpImages = []\<rparr>) ''negative_prompt'' = None"
  by (simp add: siliconFlowBody_def Let_def map_of_optField del: optField.simps)

text \<open>
  The end-to-end examples of the specification: the request
  \<open>{messages: [{role: "user", content: "a cat"}]}\<close> for provider A, and the same
  message with model \<open>Qwen/Qwen-Image\<close> and \<open>n: 10\<close> for provider B.
\<close>

lemma end_to_end_provider_A:
  "coerceMessagePayload [\<lparr>role = ''user'', content = Text ''a cat''\<rparr>]
     = Inr \<lparr>prompt = ''a cat'', dataUrls = [], httpImages = []\<rparr>"
  "detectProvider None = Ark"
  "arkRequest
     \<lparr>req_model = None, req_messages = [\<lparr>role = ''user'', content = Text ''a cat''\<rparr>],
      req_n = None, req_size = None, req_seed = None, req_extra = []\<rparr>
     \<lparr>prompt = ''a cat'', dataUrls = [], httpImages = []\<rparr>
   = [(''model'', JStr ''doubao-seedream-4-0-250828''), (''prompt'', JStr ''a cat''),
      (''image'', JArr []), (''sequential_image_generation'', JStr ''disabled''),
      (''response_format'', JStr ''b64_json''), (''size'', JStr ''1024x1024''),
      (''seed'', JNum (- 1)), (''stream'', JBool False), (''watermark'', JBool False)]"
  by (simp_all add: coerceMessagePayload_def scanMessage_def trim_def isWhiteSpace_def
        detectProvider_def arkRequest_def arkCount_def arkModel_def)

lemma end_to_end_provider_B:
  "detectProvider (Some ''Qwen/Qwen-Image'') = SiliconFlow"
  "siliconFlowBody
     \<lparr>req_model = Some ''Qwen/Qwen-Image'',
      req_messages = [\<lparr>role = ''user'', content = Text ''a cat''\<rparr>],
      req_n = Some 10, req_size = None, req_seed = None, req_extra = []\<rparr>
     \<lparr>prompt = ''a cat'', dataUrls = [], httpImages = []\<rparr>
   = [(''model'', JStr ''Qwen/Qwen-Image''), (''prompt'', JStr ''a cat''),
      (''batch_size'', JNum 4), (''image_size'', JStr ''1328x1328'')]"
  by (simp_all add: detectProvider_def siliconFlowBody_def siliconFlowModel_def clamp_def)

text \<open>A whole request body of provider B, every optional field out of its range.\<close>

lemma siliconFlowBody_example:
  "siliconFlowBody
        \<lparr>req_model = Some ''Qwen/Qwen-Image'',
         req_messages = [\<lparr>role = ''user'', content = Text ''a cat''\<rparr>],
         req_n = Some 10, req_size = None, req_seed = Some (- 5),
         req_extra = [(''negative_prompt'', JStr ''blurry''), (''cfg'', JNum 0),
                      (''num_inference_steps'', JNum 500), (''guidance_scale'', JNum (15 / 2))]\<rparr>
        \<lparr>prompt = ''a cat'', dataUrls = [''data:image/png;base64,AAAA''], httpImages = [''http://x/1.png'']\<rparr>
    = [(''model'', JStr ''Qwen/Qwen-Image''), (''prompt'', JStr ''a cat''), (''batch_size'', JNum 4),
       (''image_size'', JStr ''1328x1328''), (''negative_prompt'', JStr ''blurry''),
       (''seed'', JNum 0), (''num_inference_steps'', JNum 100), (''guidance_scale'', JNum (15 / 2)),
       (''cfg'', JNum (1 / 10)), (''image'', JStr ''data:image/png;base64,AAAA'')]"
  by (simp add: siliconFlowBody_def siliconFlowModel_def Let_def clamp_def)

section \<open>Response normalizers: the claims\<close>

lemma entryUrl_decoded:
  "(if truthy (map_option JStr (entryUrl img)) then entryUrl img else None) = decodedUrl img"
  by (auto simp: entryUrl_def decodedUrl_def split: option.splits json.splits)

lemma arkImage_url: "map_option image_url (arkImage img) = decodedUrl img"
  using entryUrl_decoded [of img]
  by (cases "entryUrl img") (auto simp: arkImage_def Let_def split: if_splits)

lemma siliconFlowImage_url: "map_option image_url (siliconFlowImage img) = decodedUrl img"
  using entryUrl_decoded [of img]
  by (cases "entryUrl img") (auto simp: siliconFlowImage_def Let_def split: if_splits)

lemma map_map_filter:
  "map g (List.map_filter f xs) = List.map_filter (\<lambda>x. map_option g (f x)) xs"
  by (induction xs) (auto simp: List.map_filter_simps split: option.splits)

lemma mapImages_urls:
  assumes "\<And>img. map_option image_url (f img) = decodedUrl img"
  shows "map image_url (mapImages f list) =
           (case list of Some (JArr imgs) \<Rightarrow> List.map_filter decodedUrl imgs | _ \<Rightarrow> [])"
  by (cases "(f, list)" rule: mapImages.cases) (simp_all add: map_map_filter assms)

text \<open>
  Claim C7, as amended. For both providers the URLs of the normalized images are, in the
  order of the result list, those of the decoding rule: the direct URL field when it is a
  non-empty string; when the URL field is absent or not a string, the base64 payload
  wrapped as \<open>data:image/png;base64,<payload>\<close>; an entry matching neither is dropped
  and nothing is raised. A reply whose list is not an array gives no image.
\<close>

theorem image_url_decoding:
  "map image_url (out_data (arkResult now requestBody arkData)) =
     (case getProp (Some arkData) ''data'' of
        Some (JArr imgs) \<Rightarrow> List.map_filter decodedUrl imgs
      | _ \<Rightarrow> [])
   \<and> map image_url (out_data (siliconFlowResult now requestBody data)) =
     (case getProp (Some data) ''images'' of
        Some (JArr imgs) \<Rightarrow> List.map_filter decodedUrl imgs
      | _ \<Rightarrow> [])"
  by (simp add: arkResult_def siliconFlowResult_def mapImages_urls arkImage_url siliconFlowImage_url)

text \<open>
  As first stated, C7 takes the URL field whenever it is present and a string, and the
  base64 payload otherwise. An entry whose URL field is the empty string is dropped by
  \<open>if (!url) return undefined\<close>, though it holds a base64 payload.
\<close>

theorem image_url_empty_counterexample:
  "out_data (arkResult 0
      \<lparr>req_model = None, req_messages = [\<lparr>role = ''user'', content = Text ''a cat''\<rparr>],
       req_n = None, req_size = None, req_seed = None, req_extra = []\<rparr>
      (JObj [(''data'', JArr [JObj [(''url'', JStr []), (''b64_json'', JStr ''QUJD'')]])])) = []"
  by (simp add: arkResult_def arkImage_def entryUrl_def List.map_filter_simps)

text \<open>The two normalizer examples of the specification.\<close>

lemma image_url_examples:
  "out_data (arkResult 0 requestBody (JObj [(''data'', JArr [JObj [(''b64_json'', JStr ''QUJD'')]])]))
     = [\<lparr>image_url = ''data:image/png;base64,QUJD'', image_size = None\<rparr>]"
  "out_data (siliconFlowResult 0 requestBody
       (JObj [(''images'', JArr [JObj [(''url'', JStr ''https://x/1.png'')]])]))
     = [\<lparr>image_url = ''https://x/1.png'', image_size = None\<rparr>]"
  by (simp_all add: arkResult_def siliconFlowResult_def arkImage_def siliconFlowImage_def
        entryUrl_def List.map_filter_simps)

text \<open>
  Claim C8, as amended. A provider reply with a success status and a JSON body never
  makes the call fail: both calls return the normalized result. When the image list
  cannot be located (the \<open>data\<close> field of provider A, the \<open>images\<close> field of provider B,
  is missing or not an array) the result holds no image; missing optional fields change
  nothing in that.
\<close>

theorem normalizer_total:
  "(res_ok (fetch ARK_API_URL apiKey (JObj (arkRequest requestBody payload)))
      \<and> res_json (fetch ARK_API_URL apiKey (JObj (arkRequest requestBody payload))) = Some arkData
    \<longrightarrow> callArk fetch now apiKey requestBody payload = Inr (arkResult now requestBody arkData))
   \<and> (res_ok (fetch SILICONFLOW_API_URL apiKey (JObj (siliconFlowBody requestBody payload)))
      \<and> res_json (fetch SILICONFLOW_API_URL apiKey (JObj (siliconFlowBody requestBody payload))) = Some data
    \<longrightarrow> callSiliconFlow fetch now apiKey requestBody payload
          = Inr (siliconFlowResult now requestBody data))
   \<and> ((\<forall>imgs. getProp (Some arkData) ''data'' \<noteq> Some (JArr imgs))
    \<longrightarrow> out_data (arkResult now requestBody arkData) = [])
   \<and> ((\<forall>imgs. getProp (Some data) ''images'' \<noteq> Some (JArr imgs))
    \<longrightarrow> out_data (siliconFlowResult now requestBody data) = [])"
proof (intro conjI impI)
  assume "\<forall>imgs. getProp (Some arkData) ''data'' \<noteq> Some (JArr imgs)"
  then show "out_data (arkResult now requestBody arkData) = []"
    by (cases "(arkImage, getProp (Some arkData) ''data'')" rule: mapImages.cases)
       (simp_all add: arkResult_def)
next
  assume "\<forall>imgs. getProp (Some data) ''images'' \<noteq> Some (JArr imgs)"
  then show "out_data (siliconFlowResult now requestBody data) = []"
    by (cases "(siliconFlowImage, getProp (Some data) ''images'')" rule: mapImages.cases)
       (simp_all add: siliconFlowResult_def)
qed (simp_all add: callArk_def callSiliconFlow_def Let_def)

theorem normalizer_total_witness:
  "(res_ok \<lparr>res_ok = True, res_status = 200, res_text = ''{usage:null}'',
             res_json = Some (JObj [(''usage'', JNull)])\<rparr>
     \<and> res_json \<lparr>res_ok = True, res_status = 200, res_text = ''{usage:null}'',
                  res_json = Some (JObj [(''usage'', JNull)])\<rparr>
         = Some (JObj [(''usage'', JNull)])
     \<and> getProp (Some (JObj [(''usage'', JNull)])) ''data'' = None
     \<and> getProp (Some (JObj [(''usage'', JNull)])) ''images'' = None)
   \<and> callArk
        (\<lambda>url key body. \<lparr>res_ok = True, res_status = 200, res_text = ''{usage:null}'',
                           res_json = Some (JObj [(''usage'', JNull)])\<rparr>)
        1700000000123 ''key''
        \<lparr>req_model = None, req_messages = [\<lparr>role = ''user'', content = Text ''a cat''\<rparr>],
         req_n = None, req_size = None, req_seed = None, req_extra = []\<rparr>
        \<lparr>prompt = ''a cat'', dataUrls = [], httpImages = []\<rparr>
       = Inr \<lparr>out_data = [], out_usage = Some JNull, out_created = 1700000000,
              out_model = ''doubao-seedream-4-0-250828'', out_timings = None, out_seed = None\<rparr>
   \<and> callSiliconFlow
        (\<lambda>url key body. \<lparr>res_ok = True, res_status = 200, res_text = ''{usage:null}'',
                           res_json = Some (JObj [(''usage'', JNull)])\<rparr>)
        1700000000123 ''key''
        \<lparr>req_model = None, req_messages = [\<lparr>role = ''user'', content = Text ''a cat''\<rparr>],
         req_n = None, req_size = None, req_seed = None, req_extra = []\<rparr>
        \<lparr>prompt = ''a cat'', dataUrls = [], httpImages = []\<rparr>
       = Inr \<lparr>out_data = [], out_usage = None, out_created = 1700000000,
              out_model = ''Qwen/Qwen-Image'', out_timings = None, out_seed = None\<rparr>"
  using normalizer_total
    [where fetch = "\<lambda>url key body. \<lparr>res_ok = True, res_status = 200, res_text = ''{usage:null}'',
                           res_json = Some (JObj [(''usage'', JNull)])\<rparr>"
       and apiKey = "''key''"
       and requestBody = "\<lparr>req_model = None,
              req_messages = [\<lparr>role = ''user'', content = Text ''a cat''\<rparr>],
              req_n = None, req_size = None, req_seed = None, req_extra = []\<rparr>"
       and payload = "\<lparr>prompt = ''a cat'', dataUrls = [], httpImages = []\<rparr>"
       and arkData = "JObj [(''usage'', JNull)]" and data = "JObj [(''usage'', JNull)]"
       and now = 1700000000123]
  by (simp add: arkResult_def siliconFlowResult_def arkModel_def siliconFlowModel_def)

text \<open>
  As first stated, C8 has the normalizer fail when the reply has no locatable image
  list. The code has no such failure: \<open>Array.isArray(arkData?.data) ? ... : []\<close> gives
  the empty list, and the call returns.
\<close>

theorem normalizer_no_image_list_counterexample:
  "callArk (\<lambda>url key body. \<lparr>res_ok = True, res_status = 200, res_text = ''{}'', res_json = Some (JObj [])\<rparr>)
      1700000000123 ''key''
      \<lparr>req_model = None, req_messages = [\<lparr>role = ''user'', content = Text ''a cat''\<rparr>],
       req_n = None, req_size = None, req_seed = None, req_extra = []\<rparr>
      \<lparr>prompt = ''a cat'', dataUrls = [], httpImages = []\<rparr>
    = Inr \<lparr>out_data = [], out_usage = None, out_created = 1700000000,
           out_model = ''doubao-seedream-4-0-250828'', out_timings = None, out_seed = None\<rparr>"
  by (simp add: callArk_def arkResult_def arkModel_def)

text \<open>
  Claim C9, as amended. For provider A the creation time of the result is the
  provider's own \<open>created\<close> field whenever that field is present and a number, and the
  wall-clock time of the handling of the reply, in whole seconds, otherwise. For
  provider B it is always that wall-clock time, whatever the reply holds.
\<close>

theorem created_timestamp:
  "out_created (arkResult now requestBody arkData) =
     (case getProp (Some arkData) ''created'' of
        Some (JNum c) \<Rightarrow> c
      | _ \<Rightarrow> of_int (now div 1000))
   \<and> out_created (siliconFlowResult now requestBody data) = of_int (now div 1000)"
  by (cases "getProp (Some arkData) ''created''" rule: asNumber.cases)
     (simp_all add: arkResult_def siliconFlowResult_def)

text \<open>
  As first stated, C9 holds for both providers. \<open>callSiliconFlow\<close> never reads a
  creation time from the reply: a numeric \<open>created\<close> field of provider B is ignored.
\<close>

theorem created_timestamp_siliconflow_counterexample:
  "out_created (siliconFlowResult 1700000000123
      \<lparr>req_model = Some ''Qwen/Qwen-Image'',
       req_messages = [\<lparr>role = ''user'', content = Text ''a cat''\<rparr>],
       req_n = None, req_size = None, req_seed = None, req_extra = []\<rparr>
      (JObj [(''images'', JArr [JObj [(''url'', JStr ''https://x/1.png'')]]),
             (''created'', JNum 1600000000)])) = 1700000000"
  by (simp add: siliconFlowResult_def)

end
